theory Spec2Isabelle
  imports Main "HOL-Library.Word"
begin

unbundle bit_operations_syntax

section \<open>Processor state of the ARM7 core\<close>

text \<open>
  A shallow embedding of \<^verbatim>\<open>src/core/arm/arm.inl\<close>: the dispatch step \<^verbatim>\<open>Run\<close>, the
  interrupt entry \<^verbatim>\<open>SignalIrq\<close>, the pipeline refills, the condition evaluator and the
  mode switcher. Every member function of \<^verbatim>\<open>ARM7\<close> becomes a function from the object
  before the call to the object after it. Registers and bus data are 32-bit words, so
  \<open>+\<close> and \<open>-\<close> wrap around as \<^verbatim>\<open>std::uint32_t\<close> does.
\<close>

type_synonym u32 = "32 word"

text \<open>
  Modelled from the spec: the declaration of \<^verbatim>\<open>enum Mode\<close> is not part of
  \<^verbatim>\<open>arm.inl\<close>. The spec names seven modes (unprivileged, system, fast-interrupt,
  interrupt, supervisor, abort, undefined) kept in a 5-bit mode field of the status
  register; the encodings below are the ones the ARM architecture gives that field. A
  mode is a 5-bit value, since the field can hold values that are none of the seven
  (\<^verbatim>\<open>Reset\<close> clears it to 0, and \<^verbatim>\<open>ModeToBank\<close> has a \<^verbatim>\<open>default\<close> branch for them).
\<close>

type_synonym Mode = "5 word"

definition MODE_USR :: Mode where "MODE_USR = 0x10"
definition MODE_FIQ :: Mode where "MODE_FIQ = 0x11"
definition MODE_IRQ :: Mode where "MODE_IRQ = 0x12"
definition MODE_SVC :: Mode where "MODE_SVC = 0x13"
definition MODE_ABT :: Mode where "MODE_ABT = 0x17"
definition MODE_UND :: Mode where "MODE_UND = 0x1B"
definition MODE_SYS :: Mode where "MODE_SYS = 0x1F"

text \<open>
  The register banks, named as \<^verbatim>\<open>ModeToBank\<close> names them. A bank identifier indexes the
  first dimension of \<^verbatim>\<open>state.bank\<close> and the array \<^verbatim>\<open>state.spsr\<close>.
\<close>

datatype Bank = BANK_NONE | BANK_FIQ | BANK_SVC | BANK_ABT | BANK_IRQ | BANK_UND

text \<open>
  Modelled from the spec: the declaration of the slot indices \<^verbatim>\<open>BANK_R13\<close> and
  \<^verbatim>\<open>BANK_R14\<close> is not part of \<^verbatim>\<open>arm.inl\<close>. A bank row has 7 slots (\<^verbatim>\<open>Reset\<close> clears
  \<^verbatim>\<open>bank[i][0..6]\<close>), \<^verbatim>\<open>SwitchMode\<close> keeps \<open>r8..r12\<close> in slots 2 to 6, and the spec
  gives every bank a stack-pointer slot and a link-register slot besides them: slots 0
  and 1.
\<close>

definition BANK_R13 :: nat where "BANK_R13 = 0"
definition BANK_R14 :: nat where "BANK_R14 = 1"

text \<open>
  Modelled from the spec: the declaration of \<^verbatim>\<open>enum Condition\<close> is not part of
  \<^verbatim>\<open>arm.inl\<close>. \<^verbatim>\<open>Run\<close> casts the top four bits of an instruction to it, so a condition
  is a 4-bit code, numbered as in the ARM instruction encoding (the order of the
  \<^verbatim>\<open>case\<close> labels of \<^verbatim>\<open>CheckCondition\<close>).
\<close>

type_synonym Condition = "4 word"

definition COND_EQ :: Condition where "COND_EQ = 0"
definition COND_NE :: Condition where "COND_NE = 1"
definition COND_CS :: Condition where "COND_CS = 2"
definition COND_CC :: Condition where "COND_CC = 3"
definition COND_MI :: Condition where "COND_MI = 4"
definition COND_PL :: Condition where "COND_PL = 5"
definition COND_VS :: Condition where "COND_VS = 6"
definition COND_VC :: Condition where "COND_VC = 7"
definition COND_HI :: Condition where "COND_HI = 8"
definition COND_LS :: Condition where "COND_LS = 9"
definition COND_GE :: Condition where "COND_GE = 10"
definition COND_LT :: Condition where "COND_LT = 11"
definition COND_GT :: Condition where "COND_GT = 12"
definition COND_LE :: Condition where "COND_LE = 13"
definition COND_AL :: Condition where "COND_AL = 14"
definition COND_NV :: Condition where "COND_NV = 15"

text \<open>
  Modelled from the spec: the declaration of the status register (a union of the raw
  word \<^verbatim>\<open>v\<close> and the bit fields \<^verbatim>\<open>f\<close>) is not part of \<^verbatim>\<open>arm.inl\<close>. The record has the
  fields the code reads and writes (\<^verbatim>\<open>f.mode\<close>, \<^verbatim>\<open>f.thumb\<close>, \<^verbatim>\<open>f.mask_irq\<close>,
  \<^verbatim>\<open>f.n\<close>, \<^verbatim>\<open>f.z\<close>, \<^verbatim>\<open>f.c\<close>, \<^verbatim>\<open>f.v\<close>); \<open>f_rest\<close> stands for the bits of the word that
  \<^verbatim>\<open>arm.inl\<close> never names. Copying the raw word \<^verbatim>\<open>v\<close> copies the whole record, whatever
  the layout of the fields is.
\<close>

record StatusRegister =
  f_mode :: Mode
  f_thumb :: bool
  f_mask_irq :: bool
  f_v :: bool
  f_c :: bool
  f_z :: bool
  f_n :: bool
  f_rest :: u32

text \<open>
  \<^verbatim>\<open>struct State\<close>: the sixteen general registers \<^verbatim>\<open>reg[16]\<close> (\<^verbatim>\<open>r13\<close>, \<^verbatim>\<open>r14\<close> and
  \<^verbatim>\<open>r15\<close> are other names of \<^verbatim>\<open>reg[13]\<close>, \<^verbatim>\<open>reg[14]\<close> and \<^verbatim>\<open>reg[15]\<close>), the banked
  registers \<^verbatim>\<open>bank[BANK_COUNT][7]\<close>, the status register and one saved status register
  per bank. The arrays have a fixed size, so they are functions of the index.
\<close>

record State =
  reg :: "nat \<Rightarrow> u32"
  bank :: "Bank \<Rightarrow> nat \<Rightarrow> u32"
  cpsr :: StatusRegister
  spsr :: "Bank \<Rightarrow> StatusRegister"

abbreviation r13 :: "State \<Rightarrow> u32" where "r13 s \<equiv> reg s 13"
abbreviation r14 :: "State \<Rightarrow> u32" where "r14 s \<equiv> reg s 14"
abbreviation r15 :: "State \<Rightarrow> u32" where "r15 s \<equiv> reg s 15"

text \<open>
  The \<^verbatim>\<open>ARM7\<close> object: its \<^verbatim>\<open>state\<close>, the two prefetch slots \<^verbatim>\<open>pipe[2]\<close>
  (32 bits each: \<^verbatim>\<open>Reset\<close> stores \<^verbatim>\<open>0xF0000000\<close> in them), the pointer \<^verbatim>\<open>p_spsr\<close>
  into \<^verbatim>\<open>state.spsr\<close> (the bank whose slot it points to, \<open>None\<close> while it points to
  no slot) and the bus collaborator behind \<^verbatim>\<open>interface\<close>, whose state \<open>'b\<close> is whatever
  the host's bus keeps (memory, wait-state counters, an access log).
\<close>

record 'b ARM7 =
  state :: State
  pipe :: "nat \<Rightarrow> u32"
  p_spsr :: "Bank option"
  interface :: 'b

datatype AccessType = ACCESS_NSEQ | ACCESS_SEQ

text \<open>
  Modelled from the spec: the bus collaborator and the members \<^verbatim>\<open>ARM7::ReadWord\<close> and
  \<^verbatim>\<open>ARM7::ReadHalf\<close> that \<^verbatim>\<open>Run\<close> calls are not part of \<^verbatim>\<open>arm.inl\<close>. They are
  parameters of the model: a read takes the address, the access kind and the bus state,
  and returns the raw value (as it is stored in a 32-bit prefetch slot) with the bus
  state after the access. By the spec a bus access does not re-enter the core, so a read
  changes nothing of the processor state.
\<close>

type_synonym 'b bus_read = "u32 \<Rightarrow> AccessType \<Rightarrow> 'b \<Rightarrow> u32 \<times> 'b"

record 'b Memory =
  ReadWord :: "'b bus_read"
  ReadHalf :: "'b bus_read"
  interface_ReadWord :: "'b bus_read"
  interface_ReadHalf :: "'b bus_read"

text \<open>
  The opcode handlers are external. A decode table (\<^verbatim>\<open>arm_lut\<close>, \<^verbatim>\<open>thumb_lut\<close>) maps an
  index to a handler; a handler receives the raw instruction and may change the whole
  object.
\<close>

type_synonym 'b handler = "u32 \<Rightarrow> 'b ARM7 \<Rightarrow> 'b ARM7"
type_synonym 'b lut = "nat \<Rightarrow> 'b handler"

subsection \<open>Assignments to the arrays of the state\<close>

definition set_reg :: "nat \<Rightarrow> u32 \<Rightarrow> State \<Rightarrow> State" where
  "set_reg i x s = s\<lparr>reg := (reg s)(i := x)\<rparr>"

definition set_bank :: "Bank \<Rightarrow> nat \<Rightarrow> u32 \<Rightarrow> State \<Rightarrow> State" where
  "set_bank b j x s = s\<lparr>bank := (bank s)(b := (bank s b)(j := x))\<rparr>"

definition set_spsr :: "Bank \<Rightarrow> StatusRegister \<Rightarrow> State \<Rightarrow> State" where
  "set_spsr b x s = s\<lparr>spsr := (spsr s)(b := x)\<rparr>"

definition set_pipe :: "nat \<Rightarrow> u32 \<Rightarrow> 'b ARM7 \<Rightarrow> 'b ARM7" where
  "set_pipe i x cpu = cpu\<lparr>pipe := (pipe cpu)(i := x)\<rparr>"

section \<open>The operations\<close>

subsection \<open>CheckCondition\<close>

text \<open>
  The early return for \<^verbatim>\<open>COND_AL\<close>, then the \<^verbatim>\<open>switch\<close> in the order of its labels, then
  the final \<^verbatim>\<open>return false\<close>.
\<close>

definition CheckCondition :: "StatusRegister \<Rightarrow> Condition \<Rightarrow> bool" where
  "CheckCondition psr condition =
    (if condition = COND_AL then True
     else if condition = COND_EQ then f_z psr
     else if condition = COND_NE then \<not> f_z psr
     else if condition = COND_CS then f_c psr
     else if condition = COND_CC then \<not> f_c psr
     else if condition = COND_MI then f_n psr
     else if condition = COND_PL then \<not> f_n psr
     else if condition = COND_VS then f_v psr
     else if condition = COND_VC then \<not> f_v psr
     else if condition = COND_HI then f_c psr \<and> \<not> f_z psr
     else if condition = COND_LS then \<not> f_c psr \<or> f_z psr
     else if condition = COND_GE then f_n psr = f_v psr
     else if condition = COND_LT then f_n psr \<noteq> f_v psr
     else if condition = COND_GT then \<not> (f_z psr \<or> (f_n psr \<noteq> f_v psr))
     else if condition = COND_LE then f_z psr \<or> (f_n psr \<noteq> f_v psr)
     else if condition = COND_AL then True
     else if condition = COND_NV then False
     else False)"

text \<open>
  The truth table as the specification words it, one row per condition code in the
  order of the codes: EQ, NE, CS, CC, MI, PL, VS, VC, HI, LS, GE, LT, GT, LE, always,
  never.
\<close>

definition arm_truth_table :: "bool \<Rightarrow> bool \<Rightarrow> bool \<Rightarrow> bool \<Rightarrow> bool list" where
  "arm_truth_table n z c v =
    [z, \<not> z, c, \<not> c, n, \<not> n, v, \<not> v, c \<and> \<not> z, \<not> c \<or> z,
     n = v, n \<noteq> v, \<not> z \<and> n = v, z \<or> n \<noteq> v, True, False]"

subsection \<open>ModeToBank\<close>

definition ModeToBank :: "Mode \<Rightarrow> Bank" where
  "ModeToBank m =
    (if m = MODE_USR \<or> m = MODE_SYS then BANK_NONE
     else if m = MODE_FIQ then BANK_FIQ
     else if m = MODE_IRQ then BANK_IRQ
     else if m = MODE_SVC then BANK_SVC
     else if m = MODE_ABT then BANK_ABT
     else if m = MODE_UND then BANK_UND
     else BANK_NONE)"

subsection \<open>SwitchMode\<close>

text \<open>The two loops of \<^verbatim>\<open>SwitchMode\<close> over \<open>i = 0..4\<close>, on the bank row they are given.\<close>

definition save_gprs :: "Bank \<Rightarrow> State \<Rightarrow> State" where
  "save_gprs old_gpr_bank s =
    fold (\<lambda>i s. set_bank old_gpr_bank (2 + i) (reg s (8 + i)) s) [0..<5] s"

definition restore_gprs :: "Bank \<Rightarrow> State \<Rightarrow> State" where
  "restore_gprs new_gpr_bank s =
    fold (\<lambda>i s. set_reg (8 + i) (bank s new_gpr_bank (2 + i)) s) [0..<5] s"

definition SwitchMode :: "Mode \<Rightarrow> 'b ARM7 \<Rightarrow> 'b ARM7" where
  "SwitchMode new_mode cpu =
    (let old_mode = f_mode (cpsr (state cpu)) in
     if new_mode = old_mode then cpu
     else
       let new_bank = ModeToBank new_mode;
           old_bank = ModeToBank old_mode;
           s1 = (state cpu)\<lparr>cpsr := (cpsr (state cpu))\<lparr>f_mode := new_mode\<rparr>\<rparr>
       in
         if new_bank = old_bank then cpu\<lparr>state := s1\<rparr>
         else
           let s2 = (if new_bank = BANK_FIQ \<or> old_bank = BANK_FIQ then
                       let old_gpr_bank = (if old_bank = BANK_FIQ then BANK_FIQ else BANK_NONE);
                           new_gpr_bank = (if new_bank = BANK_FIQ then BANK_FIQ else BANK_NONE)
                       in restore_gprs new_gpr_bank (save_gprs old_gpr_bank s1)
                     else s1);
               s3 = set_bank old_bank BANK_R13 (r13 s2) s2;
               s4 = set_bank old_bank BANK_R14 (r14 s3) s3;
               s5 = set_reg 13 (bank s4 new_bank BANK_R13) s4;
               s6 = set_reg 14 (bank s5 new_bank BANK_R14) s5
           in cpu\<lparr>state := s6, p_spsr := Some new_bank\<rparr>)"

subsection \<open>RefillA and RefillT\<close>

definition RefillA :: "'b Memory \<Rightarrow> 'b ARM7 \<Rightarrow> 'b ARM7" where
  "RefillA mem cpu =
    (let (w0, b0) = interface_ReadWord mem (r15 (state cpu) + 0) ACCESS_NSEQ (interface cpu);
         cpu1 = set_pipe 0 w0 (cpu\<lparr>interface := b0\<rparr>);
         (w1, b1) = interface_ReadWord mem (r15 (state cpu1) + 4) ACCESS_SEQ (interface cpu1);
         cpu2 = set_pipe 1 w1 (cpu1\<lparr>interface := b1\<rparr>)
     in cpu2\<lparr>state := set_reg 15 (r15 (state cpu2) + 8) (state cpu2)\<rparr>)"

definition RefillT :: "'b Memory \<Rightarrow> 'b ARM7 \<Rightarrow> 'b ARM7" where
  "RefillT mem cpu =
    (let (h0, b0) = interface_ReadHalf mem (r15 (state cpu) + 0) ACCESS_NSEQ (interface cpu);
         cpu1 = set_pipe 0 h0 (cpu\<lparr>interface := b0\<rparr>);
         (h1, b1) = interface_ReadHalf mem (r15 (state cpu1) + 2) ACCESS_SEQ (interface cpu1);
         cpu2 = set_pipe 1 h1 (cpu1\<lparr>interface := b1\<rparr>)
     in cpu2\<lparr>state := set_reg 15 (r15 (state cpu2) + 4) (state cpu2)\<rparr>)"

subsection \<open>SignalIrq\<close>

definition SignalIrq :: "'b Memory \<Rightarrow> 'b ARM7 \<Rightarrow> 'b ARM7" where
  "SignalIrq mem cpu =
    (if f_mask_irq (cpsr (state cpu)) then cpu
     else
       let cpu3 =
         (if f_thumb (cpsr (state cpu)) then
            let s1 = set_bank BANK_IRQ BANK_R14 (r15 (state cpu)) (state cpu);
                s2 = set_spsr BANK_IRQ (cpsr s1) s1;
                cpu1 = SwitchMode MODE_IRQ (cpu\<lparr>state := s2\<rparr>);
                cpu2 = cpu1\<lparr>state := (state cpu1)\<lparr>cpsr := (cpsr (state cpu1))\<lparr>f_thumb := False\<rparr>\<rparr>\<rparr>
            in cpu2\<lparr>state := (state cpu2)\<lparr>cpsr := (cpsr (state cpu2))\<lparr>f_mask_irq := True\<rparr>\<rparr>\<rparr>
          else
            let s1 = set_bank BANK_IRQ BANK_R14 (r15 (state cpu) - 4) (state cpu);
                s2 = set_spsr BANK_IRQ (cpsr s1) s1;
                cpu1 = SwitchMode MODE_IRQ (cpu\<lparr>state := s2\<rparr>)
            in cpu1\<lparr>state := (state cpu1)\<lparr>cpsr := (cpsr (state cpu1))\<lparr>f_mask_irq := True\<rparr>\<rparr>\<rparr>)
       in RefillA mem (cpu3\<lparr>state := set_reg 15 0x18 (state cpu3)\<rparr>))"

subsection \<open>Run\<close>

text \<open>
  The dispatch step, without the compile-time debugger hook (the build in which
  \<^verbatim>\<open>DEBUGGER\<close> is not defined). \<open>fetch_thumb\<close> and \<open>fetch_arm\<close> are the three
  statements that open each branch of \<^verbatim>\<open>Run\<close>: align \<^verbatim>\<open>r15\<close>, move slot 1 to slot 0,
  read slot 1 at \<^verbatim>\<open>r15\<close> with a sequential access.
\<close>

definition fetch_thumb :: "'b Memory \<Rightarrow> 'b ARM7 \<Rightarrow> 'b ARM7" where
  "fetch_thumb mem cpu =
    (let cpu1 = cpu\<lparr>state := set_reg 15 (r15 (state cpu) AND NOT 1) (state cpu)\<rparr>;
         cpu2 = set_pipe 0 (pipe cpu1 1) cpu1;
         (h, b) = ReadHalf mem (r15 (state cpu2)) ACCESS_SEQ (interface cpu2)
     in set_pipe 1 h (cpu2\<lparr>interface := b\<rparr>))"

definition fetch_arm :: "'b Memory \<Rightarrow> 'b ARM7 \<Rightarrow> 'b ARM7" where
  "fetch_arm mem cpu =
    (let cpu1 = cpu\<lparr>state := set_reg 15 (r15 (state cpu) AND NOT 3) (state cpu)\<rparr>;
         cpu2 = set_pipe 0 (pipe cpu1 1) cpu1;
         (w, b) = ReadWord mem (r15 (state cpu2)) ACCESS_SEQ (interface cpu2)
     in set_pipe 1 w (cpu2\<lparr>interface := b\<rparr>))"

definition Run :: "'b Memory \<Rightarrow> 'b lut \<Rightarrow> 'b lut \<Rightarrow> 'b ARM7 \<Rightarrow> 'b ARM7" where
  "Run mem thumb_lut arm_lut cpu =
    (let instruction = pipe cpu 0 in
     if f_thumb (cpsr (state cpu)) then
       let cpu1 = fetch_thumb mem cpu
       in thumb_lut (unat (drop_bit 6 instruction)) instruction cpu1
     else
       let cpu1 = fetch_arm mem cpu
       in
         if CheckCondition (cpsr (state cpu1)) (ucast (drop_bit 28 instruction)) then
           let hash = (drop_bit 16 instruction AND 0xFF0) OR (drop_bit 4 instruction AND 0x00F)
           in arm_lut (unat hash) instruction cpu1
         else cpu1\<lparr>state := set_reg 15 (r15 (state cpu1) + 4) (state cpu1)\<rparr>)"

subsection \<open>Register writes\<close>

text \<open>
  What an opcode handler does to a general register, \<^verbatim>\<open>state.reg[k] = x\<close>, and a
  sequence of such writes in order.
\<close>

definition write_reg :: "nat \<Rightarrow> u32 \<Rightarrow> 'b ARM7 \<Rightarrow> 'b ARM7" where
  "write_reg k x cpu = cpu\<lparr>state := set_reg k x (state cpu)\<rparr>"

definition write_regs :: "(nat \<times> u32) list \<Rightarrow> 'b ARM7 \<Rightarrow> 'b ARM7" where
  "write_regs ws cpu = fold (\<lambda>(k, x). write_reg k x) ws cpu"

section \<open>Concrete machines\<close>

text \<open>
  The inputs on which the theorems below are run. \<open>log_bus\<close> is a bus that logs every
  access (address and kind) and answers a read with the address read. \<open>index_lut\<close> is
  a decode table whose handler at index \<open>i\<close> does nothing but store \<open>i\<close> in \<open>r0\<close>.
  \<open>sample_cpu\<close> is a processor in system mode and ARM width with all flags clear, with
  \<open>0x100 * i\<close> in register \<open>i\<close>, recognisable values in the fast-interrupt and
  interrupt banks, the \<^verbatim>\<open>Reset\<close> value \<^verbatim>\<open>0xF0000000\<close> in both prefetch slots and
  \<^verbatim>\<open>p_spsr\<close> not yet set.
\<close>

type_synonym access_log = "(u32 \<times> AccessType) list"

definition log_read :: "access_log bus_read" where
  "log_read a k b = (a, b @ [(a, k)])"

definition log_bus :: "access_log Memory" where
  "log_bus = \<lparr>ReadWord = log_read, ReadHalf = log_read,
              interface_ReadWord = log_read, interface_ReadHalf = log_read\<rparr>"

definition index_lut :: "'b lut" where
  "index_lut i instruction cpu = cpu\<lparr>state := set_reg 0 (of_nat i) (state cpu)\<rparr>"

definition zero_psr :: StatusRegister where
  "zero_psr = \<lparr>f_mode = 0, f_thumb = False, f_mask_irq = False,
               f_v = False, f_c = False, f_z = False, f_n = False, f_rest = 0\<rparr>"

definition sample_bank :: "Bank \<Rightarrow> nat \<Rightarrow> u32" where
  "sample_bank b j =
    (if b = BANK_FIQ then 0xF0 + of_nat j else if b = BANK_IRQ then 0x10 + of_nat j else 0)"

definition sample_cpu :: "access_log ARM7" where
  "sample_cpu =
    \<lparr>state = \<lparr>reg = (\<lambda>i. 0x100 * of_nat i), bank = sample_bank,
               cpsr = zero_psr\<lparr>f_mode := MODE_SYS\<rparr>, spsr = (\<lambda>b. zero_psr)\<rparr>,
     pipe = (\<lambda>i. 0xF0000000), p_spsr = None, interface = []\<rparr>"

text \<open>
  \<open>thumb_cpu\<close> is \<open>sample_cpu\<close> in Thumb width with the halfword \<^verbatim>\<open>0x2001\<close> (the
  encoding of \<^verbatim>\<open>MOV r0, #1\<close>) in slot 0. \<open>misaligned_cpu\<close> is \<open>sample_cpu\<close> with a
  program counter that is not a multiple of 4, as a handler that writes \<^verbatim>\<open>r15\<close>
  can leave it.
\<close>

definition thumb_cpu :: "access_log ARM7" where
  "thumb_cpu =
    sample_cpu\<lparr>state := (state sample_cpu)\<lparr>cpsr := (cpsr (state sample_cpu))\<lparr>f_thumb := True\<rparr>\<rparr>,
               pipe := (pipe sample_cpu)(0 := 0x2001)\<rparr>"

definition misaligned_cpu :: "access_log ARM7" where
  "misaligned_cpu = sample_cpu\<lparr>state := set_reg 15 0x0800000A (state sample_cpu)\<rparr>"

section \<open>Properties\<close>

subsection \<open>Auxiliary facts\<close>

lemmas Condition_defs =
  COND_EQ_def COND_NE_def COND_CS_def COND_CC_def COND_MI_def COND_PL_def
  COND_VS_def COND_VC_def COND_HI_def COND_LS_def COND_GE_def COND_LT_def
  COND_GT_def COND_LE_def COND_AL_def COND_NV_def

lemmas Mode_defs =
  MODE_USR_def MODE_FIQ_def MODE_IRQ_def MODE_SVC_def MODE_ABT_def MODE_UND_def MODE_SYS_def

lemmas sample_defs =
  sample_cpu_def sample_bank_def zero_psr_def log_bus_def log_read_def index_lut_def

lemma Condition_cases:
  fixes c :: Condition
  shows "c \<in> {0, 1, 2, 3, 4, 5, 6, 7, 8, 9, 10, 11, 12, 13, 14, 15}"
proof -
  have "unat c < 16"
    using unsigned_less [of c, where ?'a = nat] by simp
  then have "unat c \<in> {0, 1, 2, 3, 4, 5, 6, 7, 8, 9, 10, 11, 12, 13, 14, 15}"
    by (simp only: insert_iff empty_iff) arith
  then have "word_of_nat (unat c) \<in>
      ((word_of_nat ` {0, 1, 2, 3, 4, 5, 6, 7, 8, 9, 10, 11, 12, 13, 14, 15}) :: Condition set)"
    by (rule imageI)
  then show ?thesis by simp
qed

lemma upt_0_5: "[0..<5] = [0, 1, 2, 3, 4]"
  by (simp add: upt_rec)

lemma set_reg_simps:
  "reg (set_reg i x s) = (reg s)(i := x)"
  "bank (set_reg i x s) = bank s"
  "cpsr (set_reg i x s) = cpsr s"
  "spsr (set_reg i x s) = spsr s"
  by (simp_all add: set_reg_def)

lemma set_bank_simps:
  "reg (set_bank b j x s) = reg s"
  "bank (set_bank b j x s) = (bank s)(b := (bank s b)(j := x))"
  "cpsr (set_bank b j x s) = cpsr s"
  "spsr (set_bank b j x s) = spsr s"
  by (simp_all add: set_bank_def)

lemma set_spsr_simps:
  "reg (set_spsr b x s) = reg s"
  "bank (set_spsr b x s) = bank s"
  "cpsr (set_spsr b x s) = cpsr s"
  "spsr (set_spsr b x s) = (spsr s)(b := x)"
  by (simp_all add: set_spsr_def)

lemma set_pipe_simps:
  "state (set_pipe i x cpu) = state cpu"
  "pipe (set_pipe i x cpu) = (pipe cpu)(i := x)"
  "p_spsr (set_pipe i x cpu) = p_spsr cpu"
  "interface (set_pipe i x cpu) = interface cpu"
  by (simp_all add: set_pipe_def)

lemma save_gprs_simps:
  "reg (save_gprs b s) = reg s"
  "cpsr (save_gprs b s) = cpsr s"
  "spsr (save_gprs b s) = spsr s"
  "bank (save_gprs b s) b' j =
     (if b' = b \<and> 2 \<le> j \<and> j \<le> 6 then reg s (j + 6) else bank s b' j)"
  unfolding save_gprs_def upt_0_5 by (auto simp add: set_bank_simps)

lemma restore_gprs_simps:
  "bank (restore_gprs b s) = bank s"
  "cpsr (restore_gprs b s) = cpsr s"
  "spsr (restore_gprs b s) = spsr s"
  "reg (restore_gprs b s) i =
     (if 8 \<le> i \<and> i \<le> 12 then bank s b (i - 6) else reg s i)"
  unfolding restore_gprs_def upt_0_5
  by (auto simp add: set_reg_simps) (simp_all add: eval_nat_numeral)

lemma ModeToBank_FIQ: "ModeToBank m = BANK_FIQ \<longleftrightarrow> m = MODE_FIQ"
  by (simp add: ModeToBank_def Mode_defs)

lemma ModeToBank_IRQ: "ModeToBank m = BANK_IRQ \<longleftrightarrow> m = MODE_IRQ"
  by (simp add: ModeToBank_def Mode_defs)

text \<open>What \<^verbatim>\<open>SwitchMode\<close> leaves in each part of the object.\<close>

lemma SwitchMode_cpsr:
  "cpsr (state (SwitchMode new_mode cpu)) = (cpsr (state cpu))\<lparr>f_mode := new_mode\<rparr>"
  by (simp add: SwitchMode_def Let_def set_reg_simps set_bank_simps
      save_gprs_simps restore_gprs_simps)

lemma SwitchMode_spsr:
  "spsr (state (SwitchMode new_mode cpu)) = spsr (state cpu)"
  by (simp add: SwitchMode_def Let_def set_reg_simps set_bank_simps
      save_gprs_simps restore_gprs_simps)

lemma SwitchMode_pipe_interface:
  "pipe (SwitchMode new_mode cpu) = pipe cpu"
  "interface (SwitchMode new_mode cpu) = interface cpu"
  by (simp_all add: SwitchMode_def Let_def)

lemma SwitchMode_same_bank:
  assumes "ModeToBank new_mode = ModeToBank (f_mode (cpsr (state cpu)))"
  shows "SwitchMode new_mode cpu =
         cpu\<lparr>state := (state cpu)\<lparr>cpsr := (cpsr (state cpu))\<lparr>f_mode := new_mode\<rparr>\<rparr>\<rparr>"
  using assms by (simp add: SwitchMode_def Let_def)

lemma SwitchMode_reg:
  assumes "ModeToBank new_mode \<noteq> ModeToBank (f_mode (cpsr (state cpu)))"
  shows "reg (state (SwitchMode new_mode cpu)) i =
    (if i = 13 then bank (state cpu) (ModeToBank new_mode) BANK_R13
     else if i = 14 then bank (state cpu) (ModeToBank new_mode) BANK_R14
     else if 8 \<le> i \<and> i \<le> 12 \<and>
             (ModeToBank new_mode = BANK_FIQ \<or> ModeToBank (f_mode (cpsr (state cpu))) = BANK_FIQ)
       then bank (state cpu) (if ModeToBank new_mode = BANK_FIQ then BANK_FIQ else BANK_NONE) (i - 6)
     else reg (state cpu) i)"
  using assms
  by (auto simp add: SwitchMode_def Let_def set_reg_simps set_bank_simps
      save_gprs_simps restore_gprs_simps BANK_R13_def BANK_R14_def)

lemma SwitchMode_bank:
  assumes "ModeToBank new_mode \<noteq> ModeToBank (f_mode (cpsr (state cpu)))"
  shows "bank (state (SwitchMode new_mode cpu)) b j =
    (if b = ModeToBank (f_mode (cpsr (state cpu))) \<and> j = BANK_R13 then r13 (state cpu)
     else if b = ModeToBank (f_mode (cpsr (state cpu))) \<and> j = BANK_R14 then r14 (state cpu)
     else if (ModeToBank new_mode = BANK_FIQ \<or> ModeToBank (f_mode (cpsr (state cpu))) = BANK_FIQ) \<and>
             b = (if ModeToBank (f_mode (cpsr (state cpu))) = BANK_FIQ then BANK_FIQ else BANK_NONE) \<and>
             2 \<le> j \<and> j \<le> 6
       then reg (state cpu) (j + 6)
     else bank (state cpu) b j)"
  using assms
  by (auto simp add: SwitchMode_def Let_def set_reg_simps set_bank_simps
      save_gprs_simps restore_gprs_simps BANK_R13_def BANK_R14_def)

lemma SwitchMode_p_spsr:
  assumes "ModeToBank new_mode \<noteq> ModeToBank (f_mode (cpsr (state cpu)))"
  shows "p_spsr (SwitchMode new_mode cpu) = Some (ModeToBank new_mode)"
  using assms by (auto simp add: SwitchMode_def Let_def)

lemma round_trip_restores_regs:
  assumes "f_mode (cpsr (state cpu)) = A" and i: "8 \<le> i \<and> i \<le> 14"
  shows "reg (state (SwitchMode A (SwitchMode B cpu))) i = reg (state cpu) i"
proof (cases "ModeToBank B = ModeToBank A")
  case True
  then show ?thesis using assms
    by (simp add: SwitchMode_same_bank)
next
  case False
  have 1: "ModeToBank B \<noteq> ModeToBank (f_mode (cpsr (state cpu)))"
    using False assms by simp
  have 2: "ModeToBank A \<noteq> ModeToBank (f_mode (cpsr (state (SwitchMode B cpu))))"
    using False by (simp add: SwitchMode_cpsr)
  show ?thesis
    using i False assms
    by (auto simp add: SwitchMode_reg [OF 2] SwitchMode_reg [OF 1] SwitchMode_bank [OF 1]
        SwitchMode_cpsr BANK_R13_def BANK_R14_def)
qed

lemma write_regs_frame:
  "cpsr (state (write_regs ws cpu)) = cpsr (state cpu)
   \<and> bank (state (write_regs ws cpu)) = bank (state cpu)"
  unfolding write_regs_def
  by (induction ws arbitrary: cpu) (auto simp add: write_reg_def set_reg_simps)

lemma SwitchMode_keeps_new_bank:
  "bank (state (SwitchMode new_mode cpu)) (ModeToBank new_mode) j
     = bank (state cpu) (ModeToBank new_mode) j"
proof (cases "ModeToBank new_mode = ModeToBank (f_mode (cpsr (state cpu)))")
  case True
  then show ?thesis by (simp add: SwitchMode_same_bank)
next
  case False
  then show ?thesis by (auto simp add: SwitchMode_bank)
qed

lemma ModeToBank_simps:
  "ModeToBank MODE_USR = BANK_NONE" "ModeToBank MODE_SYS = BANK_NONE"
  "ModeToBank MODE_FIQ = BANK_FIQ" "ModeToBank MODE_IRQ = BANK_IRQ"
  "ModeToBank MODE_SVC = BANK_SVC" "ModeToBank MODE_ABT = BANK_ABT"
  "ModeToBank MODE_UND = BANK_UND"
  by (simp_all add: ModeToBank_def Mode_defs)

lemma SwitchMode_IRQ_bank:
  "bank (state (SwitchMode MODE_IRQ cpu)) BANK_IRQ j = bank (state cpu) BANK_IRQ j"
  using SwitchMode_keeps_new_bank [of MODE_IRQ cpu j] by (simp add: ModeToBank_simps)

lemma RefillA_simps:
  "reg (state (RefillA mem cpu)) = (reg (state cpu))(15 := r15 (state cpu) + 8)"
  "bank (state (RefillA mem cpu)) = bank (state cpu)"
  "cpsr (state (RefillA mem cpu)) = cpsr (state cpu)"
  "spsr (state (RefillA mem cpu)) = spsr (state cpu)"
  "p_spsr (RefillA mem cpu) = p_spsr cpu"
  "pipe (RefillA mem cpu) 0 = fst (interface_ReadWord mem (r15 (state cpu)) ACCESS_NSEQ (interface cpu))"
  "pipe (RefillA mem cpu) (Suc 0) =
     fst (interface_ReadWord mem (r15 (state cpu) + 4) ACCESS_SEQ
       (snd (interface_ReadWord mem (r15 (state cpu)) ACCESS_NSEQ (interface cpu))))"
  "interface (RefillA mem cpu) =
     snd (interface_ReadWord mem (r15 (state cpu) + 4) ACCESS_SEQ
       (snd (interface_ReadWord mem (r15 (state cpu)) ACCESS_NSEQ (interface cpu))))"
  by (simp_all add: RefillA_def Let_def case_prod_beta set_pipe_simps set_reg_simps)

lemma aligned_word:
  fixes x :: u32
  assumes "x AND 3 = 0"
  shows "x AND NOT 3 = x"
proof (rule bit_eqI)
  fix n
  from assms have "bit (x AND 3) n = bit (0::u32) n"
    by simp
  then have *: "\<not> (bit x n \<and> bit (3::u32) n)"
    by (simp add: bit_and_iff)
  have "bit (x AND NOT 3) n = (bit x n \<and> \<not> bit (3::u32) n)"
    unfolding bit_and_iff bit_not_iff using bit_imp_possible_bit [of x n] by blast
  with * show "bit (x AND NOT 3) n = bit x n"
    by blast
qed

lemma halfword_index:
  fixes x :: u32
  assumes "x \<le> 0xFFFF"
  shows "unat (drop_bit 6 x) = (unat x div 64) mod 1024"
proof -
  have "unat x \<le> 65535"
    using assms by (simp add: word_le_nat_alt)
  moreover have "unat (drop_bit 6 x) = unat x div 64"
    by (simp add: unat_drop_bit_eq drop_bit_eq_div unat_div)
  ultimately show ?thesis by simp
qed

lemma fetch_arm_simps:
  "reg (state (fetch_arm mem cpu)) = (reg (state cpu))(15 := r15 (state cpu) AND NOT 3)"
  "bank (state (fetch_arm mem cpu)) = bank (state cpu)"
  "cpsr (state (fetch_arm mem cpu)) = cpsr (state cpu)"
  "spsr (state (fetch_arm mem cpu)) = spsr (state cpu)"
  "p_spsr (fetch_arm mem cpu) = p_spsr cpu"
  "pipe (fetch_arm mem cpu) 0 = pipe cpu 1"
  "pipe (fetch_arm mem cpu) (Suc 0) =
     fst (ReadWord mem (r15 (state cpu) AND NOT 3) ACCESS_SEQ (interface cpu))"
  "interface (fetch_arm mem cpu) =
     snd (ReadWord mem (r15 (state cpu) AND NOT 3) ACCESS_SEQ (interface cpu))"
  by (simp_all add: fetch_arm_def Let_def case_prod_beta set_pipe_simps set_reg_simps
      del: bit.compl_one not_one_eq)

lemma fetch_thumb_simps:
  "reg (state (fetch_thumb mem cpu)) = (reg (state cpu))(15 := r15 (state cpu) AND NOT 1)"
  "bank (state (fetch_thumb mem cpu)) = bank (state cpu)"
  "cpsr (state (fetch_thumb mem cpu)) = cpsr (state cpu)"
  "spsr (state (fetch_thumb mem cpu)) = spsr (state cpu)"
  "p_spsr (fetch_thumb mem cpu) = p_spsr cpu"
  "pipe (fetch_thumb mem cpu) 0 = pipe cpu 1"
  "pipe (fetch_thumb mem cpu) (Suc 0) =
     fst (ReadHalf mem (r15 (state cpu) AND NOT 1) ACCESS_SEQ (interface cpu))"
  "interface (fetch_thumb mem cpu) =
     snd (ReadHalf mem (r15 (state cpu) AND NOT 1) ACCESS_SEQ (interface cpu))"
  by (simp_all add: fetch_thumb_def Let_def case_prod_beta set_pipe_simps set_reg_simps)

subsection \<open>The condition evaluator\<close>

text \<open>
  C1. For each of the 16 condition codes and each value of the flags n, z, c and v,
  \<^verbatim>\<open>CheckCondition\<close> returns the entry of the ARM truth table for that code (EQ = z,
  NE = not z, CS = c, CC = not c, MI = n, PL = not n, VS = v, VC = not v, HI = c and not
  z, LS = not c or z, GE = (n = v), LT = (n \<noteq> v), GT = not z and n = v, LE = z or
  n \<noteq> v). The code "always" gives true and the code "never" gives false whatever the
  flags are. The function is total: it is a function of the status register and the
  code alone, defined on every 4-bit code, and returns nothing but the boolean.
\<close>

theorem CheckCondition_truth_table:
  "CheckCondition psr cond =
     arm_truth_table (f_n psr) (f_z psr) (f_c psr) (f_v psr) ! unat cond
   \<and> unat cond < length (arm_truth_table (f_n psr) (f_z psr) (f_c psr) (f_v psr))
   \<and> CheckCondition psr COND_AL = True
   \<and> CheckCondition psr COND_NV = False"
proof -
  have "unat cond < 16"
    using unsigned_less [of cond, where ?'a = nat] by simp
  moreover have "CheckCondition psr cond =
      arm_truth_table (f_n psr) (f_z psr) (f_c psr) (f_v psr) ! unat cond"
    using Condition_cases [of cond]
    by (auto simp add: CheckCondition_def arm_truth_table_def Condition_defs)
  ultimately show ?thesis
    by (simp add: CheckCondition_def arm_truth_table_def Condition_defs)
qed

theorem CheckCondition_truth_table_witness:
  "CheckCondition (zero_psr\<lparr>f_c := True\<rparr>) COND_LS = False
   \<and> CheckCondition (zero_psr\<lparr>f_c := True\<rparr>) COND_HI = True
   \<and> CheckCondition (zero_psr\<lparr>f_n := True\<rparr>) COND_GT = False
   \<and> CheckCondition (zero_psr\<lparr>f_n := True\<rparr>) COND_LT = True"
  using CheckCondition_truth_table [of "zero_psr\<lparr>f_c := True\<rparr>" COND_LS]
    CheckCondition_truth_table [of "zero_psr\<lparr>f_c := True\<rparr>" COND_HI]
    CheckCondition_truth_table [of "zero_psr\<lparr>f_n := True\<rparr>" COND_GT]
    CheckCondition_truth_table [of "zero_psr\<lparr>f_n := True\<rparr>" COND_LT]
  by (simp add: arm_truth_table_def Condition_defs zero_psr_def)

subsection \<open>The mode switcher\<close>

text \<open>
  C4. Let A and B be two distinct modes and let the processor be in mode A. After
  \<^verbatim>\<open>SwitchMode(B)\<close> followed by \<^verbatim>\<open>SwitchMode(A)\<close>, \<open>r13\<close> and \<open>r14\<close> hold the values they
  had before the first switch, and when A or B is the fast-interrupt mode so do \<open>r8\<close> to
  \<open>r12\<close>. A and B range over all values of the 5-bit mode field, the seven named modes
  among them.
\<close>

theorem SwitchMode_round_trip:
  assumes "f_mode (cpsr (state cpu)) = A" and "A \<noteq> B"
  shows "r13 (state (SwitchMode A (SwitchMode B cpu))) = r13 (state cpu)
       \<and> r14 (state (SwitchMode A (SwitchMode B cpu))) = r14 (state cpu)
       \<and> (A = MODE_FIQ \<or> B = MODE_FIQ \<longrightarrow>
            (\<forall>i. 8 \<le> i \<and> i \<le> 12 \<longrightarrow>
               reg (state (SwitchMode A (SwitchMode B cpu))) i = reg (state cpu) i))"
  using assms(1) by (simp add: round_trip_restores_regs)

theorem SwitchMode_round_trip_witness:
  "f_mode (cpsr (state sample_cpu)) = MODE_SYS \<and> MODE_SYS \<noteq> MODE_FIQ
   \<and> r13 (state (SwitchMode MODE_FIQ sample_cpu)) = 0xF0
   \<and> reg (state (SwitchMode MODE_FIQ sample_cpu)) 8 = 0xF2
   \<and> r13 (state (SwitchMode MODE_SYS (SwitchMode MODE_FIQ sample_cpu))) = 0xD00
   \<and> r14 (state (SwitchMode MODE_SYS (SwitchMode MODE_FIQ sample_cpu))) = 0xE00
   \<and> reg (state (SwitchMode MODE_SYS (SwitchMode MODE_FIQ sample_cpu))) 8 = 0x800
   \<and> reg (state (SwitchMode MODE_SYS (SwitchMode MODE_FIQ sample_cpu))) 12 = 0xC00"
proof -
  have m: "f_mode (cpsr (state sample_cpu)) = MODE_SYS"
    by (simp add: sample_defs)
  have d: "MODE_SYS \<noteq> MODE_FIQ"
    by (simp add: Mode_defs)
  have b: "ModeToBank MODE_FIQ \<noteq> ModeToBank (f_mode (cpsr (state sample_cpu)))"
    by (simp add: sample_defs ModeToBank_def Mode_defs)
  have f: "r13 (state (SwitchMode MODE_FIQ sample_cpu)) = 0xF0
         \<and> reg (state (SwitchMode MODE_FIQ sample_cpu)) 8 = 0xF2"
    by (simp only: SwitchMode_reg [OF b])
       (simp add: sample_defs ModeToBank_def Mode_defs BANK_R13_def)
  have s: "r13 (state sample_cpu) = 0xD00 \<and> r14 (state sample_cpu) = 0xE00
         \<and> reg (state sample_cpu) 8 = 0x800 \<and> reg (state sample_cpu) 12 = 0xC00"
    by (simp add: sample_defs)
  show ?thesis
    using SwitchMode_round_trip [OF m d] m d f s by simp
qed

text \<open>
  C5. Let the processor enter fast-interrupt mode from some other mode, let \<open>r8\<close> to
  \<open>r12\<close> then be written any number of times with any values, and let it switch to any
  mode other than fast-interrupt. Then \<open>r8\<close> to \<open>r12\<close> hold what they held before the
  processor entered fast-interrupt mode, whatever was written; the values written are
  back in \<open>r8\<close> to \<open>r12\<close> after the switch back into fast-interrupt mode.
\<close>

theorem FIQ_bank_isolation:
  assumes "f_mode (cpsr (state cpu)) \<noteq> MODE_FIQ"
      and "\<forall>(k, x) \<in> set ws. 8 \<le> k \<and> k \<le> 12"
      and "other \<noteq> MODE_FIQ"
      and "8 \<le> i \<and> i \<le> 12"
  shows "reg (state (SwitchMode other (write_regs ws (SwitchMode MODE_FIQ cpu)))) i
           = reg (state cpu) i
       \<and> reg (state (SwitchMode MODE_FIQ
                (SwitchMode other (write_regs ws (SwitchMode MODE_FIQ cpu))))) i
           = reg (state (write_regs ws (SwitchMode MODE_FIQ cpu))) i"
proof -
  let ?fiq = "write_regs ws (SwitchMode MODE_FIQ cpu)"
  have enter: "ModeToBank MODE_FIQ \<noteq> ModeToBank (f_mode (cpsr (state cpu)))"
    using assms(1) ModeToBank_FIQ by metis
  have mode_fiq: "f_mode (cpsr (state ?fiq)) = MODE_FIQ"
    by (simp add: write_regs_frame SwitchMode_cpsr)
  have leave: "ModeToBank other \<noteq> ModeToBank (f_mode (cpsr (state ?fiq)))"
    using assms(3) ModeToBank_FIQ mode_fiq by metis
  have reenter: "ModeToBank MODE_FIQ \<noteq> ModeToBank (f_mode (cpsr (state (SwitchMode other ?fiq))))"
    using assms(3) by (simp add: SwitchMode_cpsr ModeToBank_FIQ [of MODE_FIQ, simplified])
      (simp add: ModeToBank_FIQ [of other, symmetric])
  have saved: "bank (state ?fiq) BANK_NONE (i - 6) = reg (state cpu) i"
    using assms(1,4) enter
    by (auto simp add: write_regs_frame SwitchMode_bank ModeToBank_FIQ BANK_R13_def BANK_R14_def)
  have 1: "reg (state (SwitchMode other ?fiq)) i = reg (state cpu) i"
    using assms(3,4) saved mode_fiq
    by (simp add: SwitchMode_reg [OF leave] ModeToBank_FIQ)
  have 2: "reg (state (SwitchMode MODE_FIQ (SwitchMode other ?fiq))) i = reg (state ?fiq) i"
    using assms(3,4) mode_fiq
    by (auto simp add: SwitchMode_reg [OF reenter] SwitchMode_bank [OF leave] ModeToBank_FIQ
        BANK_R13_def BANK_R14_def)
  from 1 2 show ?thesis by simp
qed

theorem FIQ_bank_isolation_witness:
  "f_mode (cpsr (state sample_cpu)) \<noteq> MODE_FIQ
   \<and> MODE_IRQ \<noteq> MODE_FIQ \<and> (8::nat) \<le> 8 \<and> (8::nat) \<le> 12
   \<and> reg (state (write_regs [(8, 0xAAAA), (12, 0xBBBB)] (SwitchMode MODE_FIQ sample_cpu))) 8
        = 0xAAAA
   \<and> reg (state (SwitchMode MODE_IRQ
         (write_regs [(8, 0xAAAA), (12, 0xBBBB)] (SwitchMode MODE_FIQ sample_cpu)))) 8
        = 0x800
   \<and> reg (state (SwitchMode MODE_FIQ (SwitchMode MODE_IRQ
         (write_regs [(8, 0xAAAA), (12, 0xBBBB)] (SwitchMode MODE_FIQ sample_cpu))))) 8
        = 0xAAAA"
proof -
  have 1: "f_mode (cpsr (state sample_cpu)) \<noteq> MODE_FIQ"
    by (simp add: sample_defs Mode_defs)
  have 2: "\<forall>(k, x) \<in> set [(8, 0xAAAA :: u32), (12, 0xBBBB)]. 8 \<le> k \<and> k \<le> (12::nat)"
    by simp
  have 3: "MODE_IRQ \<noteq> MODE_FIQ"
    by (simp add: Mode_defs)
  have 4: "(8::nat) \<le> 8 \<and> (8::nat) \<le> 12"
    by simp
  have 5: "reg (state (write_regs [(8, 0xAAAA), (12, 0xBBBB)] (SwitchMode MODE_FIQ sample_cpu))) 8
        = 0xAAAA"
    by (simp add: write_regs_def write_reg_def set_reg_simps)
  have 6: "reg (state sample_cpu) 8 = 0x800"
    by (simp add: sample_defs)
  show ?thesis
    using FIQ_bank_isolation [OF 1 2 3 4] 1 3 5 6 by simp
qed

text \<open>
  C8, as the source has it. The specification says: for every call of \<^verbatim>\<open>SwitchMode\<close> with a mode
  other than the active one, \<open>r13\<close> and \<open>r14\<close> are saved in the old mode's bank row, then
  loaded from the new mode's bank row, and \<^verbatim>\<open>p_spsr\<close> is pointed at the new bank's saved
  status register. \<^verbatim>\<open>SwitchMode\<close> returns before any of that when both modes have the
  same bank: switching \<open>sample_cpu\<close> from system to user mode leaves row
  \<^verbatim>\<open>BANK_NONE\<close> without the current \<open>r13\<close> and leaves \<^verbatim>\<open>p_spsr\<close> as it was.
\<close>

theorem SwitchMode_saves_and_loads_counterexample:
  "MODE_USR \<noteq> f_mode (cpsr (state sample_cpu))
   \<and> bank (state (SwitchMode MODE_USR sample_cpu))
        (ModeToBank (f_mode (cpsr (state sample_cpu)))) BANK_R13 \<noteq> r13 (state sample_cpu)
   \<and> p_spsr (SwitchMode MODE_USR sample_cpu) \<noteq> Some (ModeToBank MODE_USR)"
  by (simp add: SwitchMode_def Let_def sample_defs ModeToBank_def Mode_defs BANK_R13_def)

text \<open>
  C8, amended. For every call of \<^verbatim>\<open>SwitchMode\<close> with a mode other than the active one
  whose bank is not the bank of the active mode, \<open>r13\<close> and \<open>r14\<close> are saved in the old
  mode's bank row, \<open>r13\<close> and \<open>r14\<close> are then loaded from the new mode's bank row, and
  \<^verbatim>\<open>p_spsr\<close> points at the new bank's saved status register.
\<close>

theorem SwitchMode_bank_swap:
  assumes "new_mode \<noteq> f_mode (cpsr (state cpu))"
      and "ModeToBank new_mode \<noteq> ModeToBank (f_mode (cpsr (state cpu)))"
  shows "bank (state (SwitchMode new_mode cpu)) (ModeToBank (f_mode (cpsr (state cpu)))) BANK_R13
           = r13 (state cpu)
       \<and> bank (state (SwitchMode new_mode cpu)) (ModeToBank (f_mode (cpsr (state cpu)))) BANK_R14
           = r14 (state cpu)
       \<and> r13 (state (SwitchMode new_mode cpu)) = bank (state cpu) (ModeToBank new_mode) BANK_R13
       \<and> r14 (state (SwitchMode new_mode cpu)) = bank (state cpu) (ModeToBank new_mode) BANK_R14
       \<and> p_spsr (SwitchMode new_mode cpu) = Some (ModeToBank new_mode)
       \<and> f_mode (cpsr (state (SwitchMode new_mode cpu))) = new_mode"
  using assms(2)
  by (simp add: SwitchMode_reg SwitchMode_bank SwitchMode_p_spsr SwitchMode_cpsr
      BANK_R13_def BANK_R14_def)

theorem SwitchMode_bank_swap_witness:
  "MODE_IRQ \<noteq> f_mode (cpsr (state sample_cpu))
   \<and> ModeToBank MODE_IRQ \<noteq> ModeToBank (f_mode (cpsr (state sample_cpu)))
   \<and> bank (state (SwitchMode MODE_IRQ sample_cpu)) BANK_NONE BANK_R13 = 0xD00
   \<and> bank (state (SwitchMode MODE_IRQ sample_cpu)) BANK_NONE BANK_R14 = 0xE00
   \<and> r13 (state (SwitchMode MODE_IRQ sample_cpu)) = 0x10
   \<and> r14 (state (SwitchMode MODE_IRQ sample_cpu)) = 0x11
   \<and> p_spsr (SwitchMode MODE_IRQ sample_cpu) = Some BANK_IRQ"
proof -
  have 1: "MODE_IRQ \<noteq> f_mode (cpsr (state sample_cpu))"
    by (simp add: sample_defs Mode_defs)
  have 2: "ModeToBank MODE_IRQ \<noteq> ModeToBank (f_mode (cpsr (state sample_cpu)))"
    by (simp add: sample_defs ModeToBank_def Mode_defs)
  have 3: "ModeToBank (f_mode (cpsr (state sample_cpu))) = BANK_NONE
         \<and> ModeToBank MODE_IRQ = BANK_IRQ
         \<and> r13 (state sample_cpu) = 0xD00 \<and> r14 (state sample_cpu) = 0xE00
         \<and> bank (state sample_cpu) BANK_IRQ BANK_R13 = 0x10
         \<and> bank (state sample_cpu) BANK_IRQ BANK_R14 = 0x11"
    by (simp add: sample_defs ModeToBank_def Mode_defs BANK_R13_def BANK_R14_def)
  show ?thesis
    using SwitchMode_bank_swap [OF 1 2] 1 2 3 by simp
qed

text \<open>
  C9. When \<^verbatim>\<open>SwitchMode\<close> is called with a mode other than the active one whose bank is
  the bank of the active mode (user and system mode, or a mode value that is none of
  the seven), only the mode field of the status register changes: \<open>r0\<close> to \<open>r15\<close>, all
  bank rows, all saved status registers and \<^verbatim>\<open>p_spsr\<close> stay as they are.
\<close>

theorem SwitchMode_same_bank_frame:
  assumes "new_mode \<noteq> f_mode (cpsr (state cpu))"
      and "ModeToBank new_mode = ModeToBank (f_mode (cpsr (state cpu)))"
  shows "SwitchMode new_mode cpu =
           cpu\<lparr>state := (state cpu)\<lparr>cpsr := (cpsr (state cpu))\<lparr>f_mode := new_mode\<rparr>\<rparr>\<rparr>
       \<and> reg (state (SwitchMode new_mode cpu)) = reg (state cpu)
       \<and> bank (state (SwitchMode new_mode cpu)) = bank (state cpu)
       \<and> spsr (state (SwitchMode new_mode cpu)) = spsr (state cpu)
       \<and> p_spsr (SwitchMode new_mode cpu) = p_spsr cpu"
  using assms by (simp add: SwitchMode_def Let_def)

theorem SwitchMode_same_bank_frame_witness:
  "MODE_USR \<noteq> f_mode (cpsr (state sample_cpu))
   \<and> ModeToBank MODE_USR = ModeToBank (f_mode (cpsr (state sample_cpu)))
   \<and> f_mode (cpsr (state (SwitchMode MODE_USR sample_cpu))) = MODE_USR
   \<and> r13 (state (SwitchMode MODE_USR sample_cpu)) = 0xD00
   \<and> p_spsr (SwitchMode MODE_USR sample_cpu) = None"
proof -
  have 1: "MODE_USR \<noteq> f_mode (cpsr (state sample_cpu))"
    by (simp add: sample_defs Mode_defs)
  have 2: "ModeToBank MODE_USR = ModeToBank (f_mode (cpsr (state sample_cpu)))"
    by (simp add: sample_defs ModeToBank_def Mode_defs)
  have 3: "r13 (state sample_cpu) = 0xD00 \<and> p_spsr sample_cpu = None"
    by (simp add: sample_defs)
  from SwitchMode_same_bank_frame [OF 1 2]
  have "f_mode (cpsr (state (SwitchMode MODE_USR sample_cpu))) = MODE_USR
      \<and> r13 (state (SwitchMode MODE_USR sample_cpu)) = r13 (state sample_cpu)
      \<and> p_spsr (SwitchMode MODE_USR sample_cpu) = p_spsr sample_cpu"
    by simp
  with 1 2 3 show ?thesis by simp
qed

subsection \<open>Interrupt entry\<close>

text \<open>
  C2. When the interrupt-mask flag is clear, \<^verbatim>\<open>SignalIrq\<close> sets the interrupt-mask flag,
  clears the Thumb flag, makes interrupt mode the active mode, and leaves in the link
  register slot of the interrupt bank the program counter of before the call if the width
  was Thumb, that program counter minus 4 if it was ARM. It then sets the program
  counter to the interrupt vector \<^verbatim>\<open>0x18\<close> and refills the pipeline in ARM width: slot 0
  is the word read at the vector with a non-sequential access, slot 1 the word read 4
  bytes further with a sequential access, and the program counter ends 8 bytes after the
  vector.
\<close>

theorem SignalIrq_entry:
  assumes "\<not> f_mask_irq (cpsr (state cpu))"
  shows "f_mask_irq (cpsr (state (SignalIrq mem cpu)))
       \<and> \<not> f_thumb (cpsr (state (SignalIrq mem cpu)))
       \<and> f_mode (cpsr (state (SignalIrq mem cpu))) = MODE_IRQ
       \<and> bank (state (SignalIrq mem cpu)) BANK_IRQ BANK_R14
           = (if f_thumb (cpsr (state cpu)) then r15 (state cpu) else r15 (state cpu) - 4)
       \<and> r15 (state (SignalIrq mem cpu)) = 0x18 + 8
       \<and> pipe (SignalIrq mem cpu) 0
           = fst (interface_ReadWord mem 0x18 ACCESS_NSEQ (interface cpu))
       \<and> pipe (SignalIrq mem cpu) 1
           = fst (interface_ReadWord mem (0x18 + 4) ACCESS_SEQ
               (snd (interface_ReadWord mem 0x18 ACCESS_NSEQ (interface cpu))))
       \<and> interface (SignalIrq mem cpu)
           = snd (interface_ReadWord mem (0x18 + 4) ACCESS_SEQ
               (snd (interface_ReadWord mem 0x18 ACCESS_NSEQ (interface cpu))))"
  using assms
  by (simp add: SignalIrq_def Let_def RefillA_simps set_reg_simps set_bank_simps
      set_spsr_simps SwitchMode_cpsr SwitchMode_pipe_interface SwitchMode_IRQ_bank)

theorem SignalIrq_entry_witness:
  "\<not> f_mask_irq (cpsr (state sample_cpu))
   \<and> f_mask_irq (cpsr (state (SignalIrq log_bus sample_cpu)))
   \<and> f_mode (cpsr (state (SignalIrq log_bus sample_cpu))) = MODE_IRQ
   \<and> bank (state (SignalIrq log_bus sample_cpu)) BANK_IRQ BANK_R14 = 0xEFC
   \<and> r15 (state (SignalIrq log_bus sample_cpu)) = 0x20
   \<and> pipe (SignalIrq log_bus sample_cpu) 0 = 0x18
   \<and> pipe (SignalIrq log_bus sample_cpu) 1 = 0x1C
   \<and> interface (SignalIrq log_bus sample_cpu) = [(0x18, ACCESS_NSEQ), (0x1C, ACCESS_SEQ)]
   \<and> \<not> f_mask_irq (cpsr (state thumb_cpu))
   \<and> \<not> f_thumb (cpsr (state (SignalIrq log_bus thumb_cpu)))
   \<and> bank (state (SignalIrq log_bus thumb_cpu)) BANK_IRQ BANK_R14 = 0xF00"
proof -
  have 1: "\<not> f_mask_irq (cpsr (state sample_cpu))"
    by (simp add: sample_defs)
  have 2: "\<not> f_mask_irq (cpsr (state thumb_cpu))"
    by (simp add: thumb_cpu_def sample_defs)
  have 3: "\<not> f_thumb (cpsr (state sample_cpu)) \<and> r15 (state sample_cpu) = 0xF00
         \<and> interface sample_cpu = []
         \<and> f_thumb (cpsr (state thumb_cpu)) \<and> r15 (state thumb_cpu) = 0xF00"
    by (simp add: thumb_cpu_def sample_defs)
  show ?thesis
    using SignalIrq_entry [OF 1, of log_bus] SignalIrq_entry [OF 2, of log_bus] 1 2 3
    by (simp add: log_bus_def log_read_def)
qed

text \<open>
  C3. When the interrupt-mask flag is set, \<^verbatim>\<open>SignalIrq\<close> changes nothing: the object
  after the call is the object before it, registers, flags, bank rows, saved status
  registers, prefetch slots and \<^verbatim>\<open>p_spsr\<close> alike, and the bus is left in the state it
  was in, whatever the bus is, so no access was made.
\<close>

theorem SignalIrq_masked:
  assumes "f_mask_irq (cpsr (state cpu))"
  shows "SignalIrq mem cpu = cpu \<and> interface (SignalIrq mem cpu) = interface cpu"
  using assms by (simp add: SignalIrq_def)

theorem SignalIrq_masked_witness:
  "f_mask_irq (cpsr (state
     (sample_cpu\<lparr>state := (state sample_cpu)\<lparr>cpsr := (cpsr (state sample_cpu))\<lparr>f_mask_irq := True\<rparr>\<rparr>\<rparr>)))
   \<and> SignalIrq log_bus
       (sample_cpu\<lparr>state := (state sample_cpu)\<lparr>cpsr := (cpsr (state sample_cpu))\<lparr>f_mask_irq := True\<rparr>\<rparr>\<rparr>)
     = sample_cpu\<lparr>state := (state sample_cpu)\<lparr>cpsr := (cpsr (state sample_cpu))\<lparr>f_mask_irq := True\<rparr>\<rparr>\<rparr>
   \<and> interface (SignalIrq log_bus
       (sample_cpu\<lparr>state := (state sample_cpu)\<lparr>cpsr := (cpsr (state sample_cpu))\<lparr>f_mask_irq := True\<rparr>\<rparr>\<rparr>))
     = []"
  using SignalIrq_masked [of "sample_cpu\<lparr>state := (state sample_cpu)\<lparr>cpsr := (cpsr (state sample_cpu))\<lparr>f_mask_irq := True\<rparr>\<rparr>\<rparr>" log_bus]
  by (simp add: sample_cpu_def)

text \<open>
  C10. After \<^verbatim>\<open>SignalIrq\<close> from a state whose interrupt-mask flag is clear and whose
  active mode is not interrupt mode, the visible link register \<open>r14\<close> holds the return
  address: the program counter of before the call if the width was Thumb, that program
  counter minus 4 if it was ARM.
\<close>

theorem SignalIrq_visible_r14:
  assumes "\<not> f_mask_irq (cpsr (state cpu))"
      and "f_mode (cpsr (state cpu)) \<noteq> MODE_IRQ"
  shows "r14 (state (SignalIrq mem cpu))
           = (if f_thumb (cpsr (state cpu)) then r15 (state cpu) else r15 (state cpu) - 4)"
proof -
  have "ModeToBank MODE_IRQ \<noteq> ModeToBank (f_mode (cpsr (state cpu)))"
    using assms(2) ModeToBank_IRQ by metis
  then show ?thesis
    using assms(1)
    by (simp add: SignalIrq_def Let_def RefillA_simps set_reg_simps set_bank_simps
        set_spsr_simps SwitchMode_reg ModeToBank_IRQ BANK_R14_def)
qed

theorem SignalIrq_visible_r14_witness:
  "\<not> f_mask_irq (cpsr (state sample_cpu))
   \<and> f_mode (cpsr (state sample_cpu)) \<noteq> MODE_IRQ
   \<and> r14 (state sample_cpu) = 0xE00
   \<and> r14 (state (SignalIrq log_bus sample_cpu)) = 0xEFC"
proof -
  have 1: "\<not> f_mask_irq (cpsr (state sample_cpu))"
    by (simp add: sample_defs)
  have 2: "f_mode (cpsr (state sample_cpu)) \<noteq> MODE_IRQ"
    by (simp add: sample_defs Mode_defs)
  have 3: "\<not> f_thumb (cpsr (state sample_cpu)) \<and> r15 (state sample_cpu) = 0xF00
         \<and> r14 (state sample_cpu) = 0xE00"
    by (simp add: sample_defs)
  show ?thesis
    using SignalIrq_visible_r14 [OF 1 2, of log_bus] 1 2 3 by simp
qed

subsection \<open>The dispatch step\<close>

text \<open>
  C6, as the source has it. The specification says: in an ARM-width step whose condition is
  false the program counter advances by exactly 4. \<^verbatim>\<open>Run\<close> clears the two low bits of
  the program counter before it adds 4: from \<^verbatim>\<open>0x0800000A\<close> the step goes to
  \<^verbatim>\<open>0x0800000C\<close>, not to \<^verbatim>\<open>0x0800000E\<close>.
\<close>

theorem Run_skip_counterexample:
  "\<not> f_thumb (cpsr (state misaligned_cpu))
   \<and> \<not> CheckCondition (cpsr (state misaligned_cpu)) (ucast (drop_bit 28 (pipe misaligned_cpu 0)))
   \<and> r15 (state misaligned_cpu) + 4 = 0x0800000E
   \<and> r15 (state (Run log_bus index_lut index_lut misaligned_cpu)) = 0x0800000C"
  by (simp add: Run_def Let_def fetch_arm_simps set_reg_simps misaligned_cpu_def sample_defs
      CheckCondition_def Condition_defs)

text \<open>
  C6, amended. In an ARM-width step whose condition (the top 4 bits of the instruction
  in slot 0) is false, the program counter is aligned down to a multiple of 4 and then
  advanced by 4, so it advances by exactly 4 when it was word-aligned before the step.
  No opcode handler is invoked: the object after the step is the object after the
  prefetch with 4 added to the program counter, whatever the decode tables hold.
  \<open>r0\<close> to \<open>r14\<close> and all fields of the status register are unchanged.
\<close>

theorem Run_skip:
  assumes "\<not> f_thumb (cpsr (state cpu))"
      and "\<not> CheckCondition (cpsr (state cpu)) (ucast (drop_bit 28 (pipe cpu 0)))"
  shows "Run mem thumb_lut arm_lut cpu =
           (fetch_arm mem cpu)\<lparr>state :=
              set_reg 15 (r15 (state (fetch_arm mem cpu)) + 4) (state (fetch_arm mem cpu))\<rparr>
       \<and> r15 (state (Run mem thumb_lut arm_lut cpu)) = (r15 (state cpu) AND NOT 3) + 4
       \<and> (r15 (state cpu) AND 3 = 0 \<longrightarrow>
            r15 (state (Run mem thumb_lut arm_lut cpu)) = r15 (state cpu) + 4)
       \<and> (\<forall>i < 15. reg (state (Run mem thumb_lut arm_lut cpu)) i = reg (state cpu) i)
       \<and> cpsr (state (Run mem thumb_lut arm_lut cpu)) = cpsr (state cpu)"
proof -
  have run: "Run mem thumb_lut arm_lut cpu =
           (fetch_arm mem cpu)\<lparr>state :=
              set_reg 15 (r15 (state (fetch_arm mem cpu)) + 4) (state (fetch_arm mem cpu))\<rparr>"
    using assms by (simp add: Run_def Let_def fetch_arm_simps)
  have pc: "r15 (state (Run mem thumb_lut arm_lut cpu)) = (r15 (state cpu) AND NOT 3) + 4"
    unfolding run by (simp add: set_reg_simps fetch_arm_simps)
  have regs: "\<forall>i < 15. reg (state (Run mem thumb_lut arm_lut cpu)) i = reg (state cpu) i"
    unfolding run by (simp add: set_reg_simps fetch_arm_simps)
  have flags: "cpsr (state (Run mem thumb_lut arm_lut cpu)) = cpsr (state cpu)"
    unfolding run by (simp add: set_reg_simps fetch_arm_simps)
  have aligned: "r15 (state cpu) AND 3 = 0 \<longrightarrow>
      r15 (state (Run mem thumb_lut arm_lut cpu)) = r15 (state cpu) + 4"
  proof
    assume "r15 (state cpu) AND 3 = 0"
    then have "r15 (state cpu) AND NOT 3 = r15 (state cpu)"
      by (rule aligned_word)
    with pc show "r15 (state (Run mem thumb_lut arm_lut cpu)) = r15 (state cpu) + 4"
      by (simp only:)
  qed
  from run pc aligned regs flags show ?thesis
    by blast
qed

theorem Run_skip_witness:
  "\<not> f_thumb (cpsr (state sample_cpu))
   \<and> \<not> CheckCondition (cpsr (state sample_cpu)) (ucast (drop_bit 28 (pipe sample_cpu 0)))
   \<and> r15 (state sample_cpu) AND 3 = 0
   \<and> r15 (state sample_cpu) = 0xF00
   \<and> r15 (state (Run log_bus index_lut index_lut sample_cpu)) = 0xF04
   \<and> reg (state (Run log_bus index_lut index_lut sample_cpu)) 14 = 0xE00
   \<and> cpsr (state (Run log_bus index_lut index_lut sample_cpu)) = zero_psr\<lparr>f_mode := MODE_SYS\<rparr>"
proof -
  have 1: "\<not> f_thumb (cpsr (state sample_cpu))"
    by (simp add: sample_defs)
  have 2: "\<not> CheckCondition (cpsr (state sample_cpu)) (ucast (drop_bit 28 (pipe sample_cpu 0)))"
    by (simp add: sample_defs CheckCondition_def Condition_defs)
  have 3: "r15 (state sample_cpu) AND 3 = 0 \<and> r15 (state sample_cpu) = 0xF00
         \<and> reg (state sample_cpu) 14 = 0xE00
         \<and> cpsr (state sample_cpu) = zero_psr\<lparr>f_mode := MODE_SYS\<rparr>"
    by (simp add: sample_defs)
  note skip = Run_skip [OF 1 2, of log_bus index_lut index_lut]
  note run = skip [THEN conjunct2, THEN conjunct2]
  from run 3 have pc: "r15 (state (Run log_bus index_lut index_lut sample_cpu)) = 0xF04"
    by simp
  from run have "reg (state (Run log_bus index_lut index_lut sample_cpu)) 14
      = reg (state sample_cpu) 14"
    by simp
  with 3 have lr: "reg (state (Run log_bus index_lut index_lut sample_cpu)) 14 = 0xE00"
    by simp
  from run 3 have flags:
    "cpsr (state (Run log_bus index_lut index_lut sample_cpu)) = zero_psr\<lparr>f_mode := MODE_SYS\<rparr>"
    by simp
  from 1 2 3 pc lr flags show ?thesis
    by blast
qed

text \<open>
  C7, as the source has it. The specification says: the handler invoked in a Thumb-width step
  is the entry of the Thumb table at bits 15..10 of the instruction halfword, a 6-bit
  index. \<^verbatim>\<open>Run\<close> indexes the table with \<^verbatim>\<open>instruction >> 6\<close>: for the halfword
  \<^verbatim>\<open>0x2001\<close> bits 15..10 are 8, and the handler invoked is entry \<^verbatim>\<open>0x80\<close>.
\<close>

theorem Run_thumb_index_counterexample:
  "f_thumb (cpsr (state thumb_cpu))
   \<and> pipe thumb_cpu 0 = 0x2001
   \<and> unat (drop_bit 10 (pipe thumb_cpu 0) AND 0x3F) = 8
   \<and> reg (state (index_lut (unat (drop_bit 10 (pipe thumb_cpu 0) AND 0x3F)) (pipe thumb_cpu 0)
         (fetch_thumb log_bus thumb_cpu))) 0 = 8
   \<and> reg (state (Run log_bus index_lut index_lut thumb_cpu)) 0 = 0x80
   \<and> Run log_bus index_lut index_lut thumb_cpu \<noteq>
       index_lut (unat (drop_bit 10 (pipe thumb_cpu 0) AND 0x3F)) (pipe thumb_cpu 0)
         (fetch_thumb log_bus thumb_cpu)"
proof -
  have 1: "f_thumb (cpsr (state thumb_cpu)) \<and> pipe thumb_cpu 0 = 0x2001"
    by (simp add: thumb_cpu_def sample_defs)
  have 2: "unat (drop_bit 10 (pipe thumb_cpu 0) AND 0x3F) = 8"
    by (simp add: 1 drop_bit_eq_div)
  have 3: "reg (state (index_lut (unat (drop_bit 10 (pipe thumb_cpu 0) AND 0x3F)) (pipe thumb_cpu 0)
         (fetch_thumb log_bus thumb_cpu))) 0 = 8"
    unfolding 2 by (simp add: index_lut_def set_reg_simps)
  have 4: "reg (state (Run log_bus index_lut index_lut thumb_cpu)) 0 = 0x80"
    by (simp add: Run_def Let_def 1 index_lut_def set_reg_simps drop_bit_eq_div)
  have 5: "Run log_bus index_lut index_lut thumb_cpu \<noteq>
       index_lut (unat (drop_bit 10 (pipe thumb_cpu 0) AND 0x3F)) (pipe thumb_cpu 0)
         (fetch_thumb log_bus thumb_cpu)"
  proof
    assume "Run log_bus index_lut index_lut thumb_cpu =
       index_lut (unat (drop_bit 10 (pipe thumb_cpu 0) AND 0x3F)) (pipe thumb_cpu 0)
         (fetch_thumb log_bus thumb_cpu)"
    then have "reg (state (Run log_bus index_lut index_lut thumb_cpu)) 0 =
       reg (state (index_lut (unat (drop_bit 10 (pipe thumb_cpu 0) AND 0x3F)) (pipe thumb_cpu 0)
         (fetch_thumb log_bus thumb_cpu))) 0"
      by simp
    then show False
      unfolding 3 4 by simp
  qed
  from 1 2 3 4 5 show ?thesis by simp
qed

text \<open>
  C7, amended. In every Thumb-width step the handler invoked is the entry of the Thumb
  table at the instruction of slot 0 shifted right by 6 bits: for an instruction
  halfword, its bits 15..6, a 10-bit index. The handler is invoked with the instruction
  on the object the prefetch leaves, unconditionally: no condition is evaluated, and the
  flags play no part.
\<close>

theorem Run_thumb_dispatch:
  assumes "f_thumb (cpsr (state cpu))"
  shows "Run mem thumb_lut arm_lut cpu =
           thumb_lut (unat (drop_bit 6 (pipe cpu 0))) (pipe cpu 0) (fetch_thumb mem cpu)
       \<and> (pipe cpu 0 \<le> 0xFFFF \<longrightarrow>
            unat (drop_bit 6 (pipe cpu 0)) = (unat (pipe cpu 0) div 64) mod 1024)"
  using assms by (simp add: Run_def Let_def halfword_index)

theorem Run_thumb_dispatch_witness:
  "f_thumb (cpsr (state thumb_cpu))
   \<and> pipe thumb_cpu 0 \<le> 0xFFFF
   \<and> unat (drop_bit 6 (pipe thumb_cpu 0)) = 128
   \<and> Run log_bus index_lut index_lut thumb_cpu =
       index_lut 128 0x2001 (fetch_thumb log_bus thumb_cpu)"
proof -
  have 1: "f_thumb (cpsr (state thumb_cpu))"
    by (simp add: thumb_cpu_def sample_defs)
  have 2: "pipe thumb_cpu 0 = 0x2001"
    by (simp add: thumb_cpu_def sample_defs)
  have 3: "unat (drop_bit 6 (pipe thumb_cpu 0)) = 128"
    by (simp add: 2 drop_bit_eq_div)
  show ?thesis
    using Run_thumb_dispatch [OF 1, of log_bus index_lut index_lut] 1 2 3 by simp
qed

end
